theory Spec2Isabelle
  imports Complex_Main
begin

section \<open>The code defined in the tutorial notebooks\<close>

text \<open>
  The notebooks of diffpy/nsls2-pdf-school-2018 drive the DiffPy-CMI toolkit
  (diffpy.srreal, diffpy.srfit, pyobjcryst) and scipy. Besides configuration and plotting
  they define a handful of classes and functions of their own:
  \<^item> \<open>02-Function-Calculators.ipynb\<close>: \<open>RectangularProfile\<close>, \<open>CarbonChain\<close>,
    \<open>convertCarbonChain\<close>, \<open>LennardJonesCalculator\<close>;
  \<^item> \<open>08-Orient-Naphthalene.ipynb\<close>: \<open>myLoadCrystal\<close>, \<open>getCrystalWithMolecule\<close>,
    \<open>quatzero\<close>, \<open>plotrecipe\<close>, and the cell that defines the fit recipe.

  Embedded below are \<open>quatzero\<close>, \<open>RectangularProfile\<close>, \<open>LennardJonesCalculator\<close>,
  \<open>myLoadCrystal\<close>, \<open>getCrystalWithMolecule\<close> and the cell that defines the fit
  recipe. What \<open>convertCarbonChain\<close> returns is decided by the toolkit's
  \<open>AtomicStructureAdapter.append\<close>, whose code is not part of the notebooks; it is not
  embedded. Every exception the code can raise is a value of \<open>error\<close>; what the
  toolkit supplies (the pairs it iterates over, the loaded crystal, the coordinate
  transformation) is a parameter of the model.
\<close>

datatype error =
    ZeroDivisionError
  | OverflowError
  | AttributeError
  | IndexError
  | AssertionError string

subsection \<open>Python floats\<close>

text \<open>
  Python floats are IEEE doubles. The model computes with real numbers and follows a
  float computation as long as the double that an operation yields is its real result
  up to rounding, which is the case when the real result is zero or has the magnitude of
  a normal double (\<open>in_range\<close>): at least \<open>2\<^sup>-\<^sup>1\<^sup>0\<^sup>2\<^sup>2\<close>, and below
  \<open>2\<^sup>1\<^sup>0\<^sup>2\<^sup>4 - 2\<^sup>9\<^sup>7\<^sup>0\<close>, from where on a result rounds to infinity. Rounding inside that
  range is not modelled: the properties below are stated over the reals.

  A function that computes with floats has one of three outcomes: it returns a value,
  it raises an exception, or it leaves the range (\<open>OutsideRange\<close>): an operation has
  produced an infinity or a subnormal number, with which Python goes on computing; the
  model does not follow it there and says nothing of the result.
\<close>

datatype 'a outcome = Returns 'a | Raises error | OutsideRange

definition and_then :: "'a outcome \<Rightarrow> ('a \<Rightarrow> 'b outcome) \<Rightarrow> 'b outcome" where
  "and_then m f =
     (case m of Returns a \<Rightarrow> f a | Raises e \<Rightarrow> Raises e | OutsideRange \<Rightarrow> OutsideRange)"

definition overflow_threshold :: real where
  "overflow_threshold = 2 ^ 1024 - 2 ^ 970"

definition min_normal :: real where
  "min_normal = 1 / 2 ^ 1022"

definition in_range :: "real \<Rightarrow> bool" where
  "in_range r = ((r = 0 \<or> min_normal \<le> \<bar>r\<bar>) \<and> \<bar>r\<bar> < overflow_threshold)"

text \<open>
  \<open>fl r\<close> is the outcome of an addition, subtraction, multiplication or division whose
  real result is \<open>r\<close>; none of them raises on overflow or underflow. \<open>fl_zero\<close> is the
  same, and also follows the underflow to zero: a real result of magnitude at most
  \<open>2\<^sup>-\<^sup>1\<^sup>0\<^sup>7\<^sup>5\<close>, half the smallest subnormal, rounds to \<open>0.0\<close>. It is used where the
  code compares the result with another number.
\<close>

definition fl :: "real \<Rightarrow> real outcome" where
  "fl r = (if in_range r then Returns r else OutsideRange)"

definition fl_zero :: "real \<Rightarrow> real outcome" where
  "fl_zero r = (if \<bar>r\<bar> \<le> 1 / 2 ^ 1075 then Returns 0 else fl r)"

text \<open>
  \<open>x ** n\<close> for a float \<open>x\<close> and an integer \<open>n\<close>: zero to a negative power raises
  \<open>ZeroDivisionError\<close>, a result that overflows raises \<open>OverflowError\<close>. A power that
  underflows is returned by Python as \<open>0.0\<close> or a subnormal, less than \<open>2\<^sup>-\<^sup>1\<^sup>0\<^sup>2\<^sup>2\<close>
  away from the real power, which \<open>float_pow\<close> returns; a caller for which that matters
  passes the result through \<open>fl\<close>.
\<close>

definition float_pow :: "real \<Rightarrow> int \<Rightarrow> real outcome" where
  "float_pow x n =
     (if x = 0 \<and> n < 0 then Raises ZeroDivisionError
      else if overflow_threshold \<le> \<bar>x powi n\<bar> then Raises OverflowError
      else Returns (x powi n))"

subsection \<open>\<open>quatzero\<close> (08-Orient-Naphthalene.ipynb)\<close>

text \<open>
  \<^verbatim>\<open>
  class quatzero(Calculator):
      def __call__(self, q1, q2, q3):
          ssq = q1**2 + q2**2 + q3**2
          q0 = np.sqrt(1.0 - ssq) if ssq < 1 else 0.0
          return q0
  \<close>
  The three squares are computed from left to right and each may raise
  \<open>OverflowError\<close>. A square that underflows changes \<open>ssq\<close> by less than
  \<open>2\<^sup>-\<^sup>1\<^sup>0\<^sup>2\<^sup>2\<close>; a sum that overflows is an infinity, which is not below 1, as the real
  sum is not: in both cases the course of the function is that of the real computation.
  \<open>np.sqrt\<close> of a negative number is no real number (numpy returns \<open>nan\<close>):
  \<open>None\<close> stands for that value.
\<close>

definition np_sqrt :: "real \<Rightarrow> real option" where
  "np_sqrt x = (if x < 0 then None else Some (sqrt x))"

definition quatzero_call :: "real \<Rightarrow> real \<Rightarrow> real \<Rightarrow> real option outcome" where
  "quatzero_call q1 q2 q3 =
     and_then (float_pow q1 2) (\<lambda>s1.
     and_then (float_pow q2 2) (\<lambda>s2.
     and_then (float_pow q3 2) (\<lambda>s3.
       let ssq = s1 + s2 + s3;
           q0 = (if ssq < 1 then np_sqrt (1.0 - ssq) else Some 0.0)
       in Returns q0)))"

subsection \<open>\<open>RectangularProfile\<close> (02-Function-Calculators.ipynb)\<close>

text \<open>
  \<^verbatim>\<open>
  def __call__(self, x, fwhm):
      inside = (-fwhm/2.0 < x < +fwhm/2.0)
      y = (1.0 / fwhm) if inside else 0.0
      return y
  def type(self):           return "rectangularprofile"
  def xboundhi(self, fwhm): return +0.5 * fwhm
  def xboundlo(self, fwhm): return -0.5 * fwhm
  \<close>
  The chained comparison is the conjunction of its two halves; the unary plus of the
  source is the identity and is not written. The second half-width is evaluated only
  when the first comparison holds, but it has the magnitude of the first, so it leaves
  the range exactly when the first does, and the model evaluates both. Halving
  \<open>fwhm\<close> can underflow: the smallest positive double halves to \<open>0.0\<close>. The division
  raises \<open>ZeroDivisionError\<close> at \<open>fwhm = 0\<close>; it is evaluated only when \<open>inside\<close>
  holds. The methods \<open>clone\<close> and \<open>create\<close> return a profile object, which has no
  attributes of its own, and are left out.
\<close>

definition RectangularProfile_call :: "real \<Rightarrow> real \<Rightarrow> real outcome" where
  "RectangularProfile_call x fwhm =
     and_then (fl_zero (- fwhm / 2.0)) (\<lambda>lo.
     and_then (fl_zero (fwhm / 2.0)) (\<lambda>hi.
       let inside = (lo < x \<and> x < hi)
       in if inside then (if fwhm = 0 then Raises ZeroDivisionError else fl (1.0 / fwhm))
          else Returns 0.0))"

definition RectangularProfile_type :: string where
  "RectangularProfile_type = ''rectangularprofile''"

definition xboundhi :: "real \<Rightarrow> real outcome" where
  "xboundhi fwhm = fl_zero (0.5 * fwhm)"

definition xboundlo :: "real \<Rightarrow> real outcome" where
  "xboundlo fwhm = fl_zero (- 0.5 * fwhm)"

subsection \<open>\<open>LennardJonesCalculator\<close> (02-Function-Calculators.ipynb)\<close>










subsection \<open>\<open>myLoadCrystal\<close> and \<open>getCrystalWithMolecule\<close> (08-Orient-Naphthalene.ipynb)\<close>

text \<open>
  \<^verbatim>\<open>
  def myLoadCrystal(filename):
      from pyobjcryst.crystal import CreateCrystalFromCIF
      with open(filename) as fp:
          rv = CreateCrystalFromCIF(fp, oneScatteringPowerPerElement=True)
      return rv

  def getCrystalWithMolecule(ciffilename):
      from pyobjcryst.molecule import Molecule
      xyzmol = np.array([0.0, 0.0, 0.0])
      crst = myLoadCrystal(ciffilename)
      mol = Molecule(crst, "mol")
      for i in reversed(range(crst.GetNbScatterer())):
          a = crst.GetScatterer(i)
          xyzm = np.array([a.X, a.Y, a.Z]) - xyzmol
          xc, yc, zc = crst.FractionalToOrthonormalCoords(*xyzm)
          mol.AddAtom(xc, yc, zc, a.GetScatteringPower(), a.GetName())
          crst.RemoveScatterer(a)
      crst.AddScatterer(mol)
      mol.X, mol.Y, mol.Z = xyzmol
      return crst
  \<close>
  pyobjcryst's scatterers have a position \<open>X\<close>, \<open>Y\<close>, \<open>Z\<close> in fractional coordinates
  and a name; an atom adds its scattering power (named by a string here), a molecule its
  list of atoms in Cartesian coordinates. A crystal is the list of its scatterers.
  Reading the CIF file (\<open>CreateCrystalFromCIF\<close>, which may fail) and the crystal's
  \<open>FractionalToOrthonormalCoords\<close> are parameters. The only arithmetic of the
  function is the subtraction of \<open>xyzmol\<close>, which is zero and leaves each coordinate
  as it is: the function has no float outcome of its own and returns an error or a
  crystal.
\<close>

record Scatterer =
  X :: real
  Y :: real
  Z :: real
  Name :: string

record Atom = Scatterer +
  ScatteringPower :: string

record MolAtom =
  ma_x :: real
  ma_y :: real
  ma_z :: real
  ma_pow :: string
  ma_name :: string

record Molecule = Scatterer +
  atoms :: "MolAtom list"

datatype scatterer = AtomScatterer Atom | MoleculeScatterer Molecule

type_synonym Crystal = "scatterer list"

definition myLoadCrystal :: "(string \<Rightarrow> error + Crystal) \<Rightarrow> string \<Rightarrow> error + Crystal" where
  "myLoadCrystal CreateCrystalFromCIF filename = CreateCrystalFromCIF filename"

definition AddAtom :: "Molecule \<Rightarrow> real \<Rightarrow> real \<Rightarrow> real \<Rightarrow> string \<Rightarrow> string \<Rightarrow> Molecule" where
  "AddAtom mol x y z' pow name =
     mol\<lparr>atoms := atoms mol @ [\<lparr>ma_x = x, ma_y = y, ma_z = z', ma_pow = pow, ma_name = name\<rparr>]\<rparr>"

text \<open>
  \<open>RemoveScatterer(a)\<close> removes the object \<open>a\<close>, which the loop has just fetched as
  scatterer \<open>i\<close>: the model removes the element at index \<open>i\<close>.
\<close>

definition RemoveScatterer :: "Crystal \<Rightarrow> nat \<Rightarrow> Crystal" where
  "RemoveScatterer crst i = take i crst @ drop (Suc i) crst"

text \<open>
  The loop runs over the indices \<open>reversed(range(n))\<close>, fixed when it starts.
  \<open>GetScatterer\<close> beyond the end fails; a scatterer that is a molecule has no
  \<open>GetScatteringPower\<close>.
\<close>

fun getCrystalWithMolecule_loop ::
  "(real \<Rightarrow> real \<Rightarrow> real \<Rightarrow> real \<times> real \<times> real) \<Rightarrow> real \<times> real \<times> real \<Rightarrow> nat list
     \<Rightarrow> Crystal \<times> Molecule \<Rightarrow> error + Crystal \<times> Molecule" where
  "getCrystalWithMolecule_loop f2o xyzmol [] (crst, mol) = Inr (crst, mol)"
| "getCrystalWithMolecule_loop f2o xyzmol (i # rest) (crst, mol) =
     (if length crst \<le> i then Inl IndexError
      else case crst ! i of
        MoleculeScatterer m \<Rightarrow> Inl AttributeError
      | AtomScatterer a \<Rightarrow>
          (case xyzmol of (x0, y0, z0) \<Rightarrow>
             (case f2o (X a - x0) (Y a - y0) (Z a - z0) of (xc', yc', zc') \<Rightarrow>
                getCrystalWithMolecule_loop f2o xyzmol rest
                  (RemoveScatterer crst i,
                   AddAtom mol xc' yc' zc' (ScatteringPower a) (Name a)))))"

text \<open>
  \<open>mol\<close> is one object: the assignment to \<open>mol.X\<close>, \<open>mol.Y\<close>, \<open>mol.Z\<close> after
  \<open>AddScatterer\<close> is seen through the crystal, so the crystal's last scatterer is the
  molecule with the position written.
\<close>

definition getCrystalWithMolecule ::
  "(string \<Rightarrow> error + Crystal) \<Rightarrow> (real \<Rightarrow> real \<Rightarrow> real \<Rightarrow> real \<times> real \<times> real) \<Rightarrow> string
     \<Rightarrow> error + Crystal" where
  "getCrystalWithMolecule CreateCrystalFromCIF f2o ciffilename =
     (let xyzmol = (0.0, 0.0, 0.0)
      in case myLoadCrystal CreateCrystalFromCIF ciffilename of
        Inl e \<Rightarrow> Inl e
      | Inr crst \<Rightarrow>
          (let mol = \<lparr>X = 0, Y = 0, Z = 0, Name = ''mol'', atoms = []\<rparr>
           in case getCrystalWithMolecule_loop f2o xyzmol (rev [0..<length crst]) (crst, mol) of
             Inl e \<Rightarrow> Inl e
           | Inr (crst, mol) \<Rightarrow>
               (case xyzmol of (x0, y0, z0) \<Rightarrow>
                  Inr (crst @ [MoleculeScatterer (mol\<lparr>X := x0, Y := y0, Z := z0\<rparr>)]))))"

text \<open>
  The atom that one pass of the loop in \<open>getCrystalWithMolecule\<close> adds to the molecule
  for the atom \<open>a\<close> (with \<open>xyzmol\<close> the origin): used to state what the loop builds.
\<close>

definition to_MolAtom :: "(real \<Rightarrow> real \<Rightarrow> real \<Rightarrow> real \<times> real \<times> real) \<Rightarrow> Atom \<Rightarrow> MolAtom" where
  "to_MolAtom f2o a =
     (case f2o (X a) (Y a) (Z a) of (xc', yc', zc') \<Rightarrow>
        \<lparr>ma_x = xc', ma_y = yc', ma_z = zc', ma_pow = ScatteringPower a, ma_name = Name a\<rparr>)"

subsection \<open>The cell that defines the fit recipe (08-Orient-Naphthalene.ipynb)\<close>

text \<open>
  The cell is a sequence of calls on the toolkit's \<open>FitRecipe\<close>, with one statement of
  its own in the middle:
  \<^verbatim>\<open>
  ocfit = FitRecipe()
  ocfit.clearFitHooks()
  ocfit.addContribution(pcnt)
  ocfit.addVar(ocfit.pcnt.scale, name='scale', value=0.1)
  ocfit.addVar(ocfit.pcnt.qdamp, name='qdamp')
  ocfit.addVar(pwcrst.a)
  ocfit.addVar(pwcrst.b)
  ocfit.addVar(pwcrst.c)
  ocfit.newVar('beta', value=np.degrees(pwcrst.beta.value))
  ocfit.constrain(pwcrst.beta, 'radians(beta)')
  assert 2 == crst.GetScatteringPowerRegistry().GetNb(), \
      "unexpected number of atom species"
  ocfit.addVar(pmol.C1.Biso, name='bisoC', value=1.0)
  ocfit.restrain('bisoC', lb=0.02, sig=1e-4)
  ocfit.addVar(pmol.H1.Biso, name='bisoH', value=1, fixed=True)
  ocfit.addVar(pwcrst.mol.C1.Biso, name='binter', value=10)
  ocfit.constrain(pwcrst.mol.H1.Biso, 'binter')
  ocfit.addVar(pwmol.q1, name='wq1')
  ocfit.addVar(pwmol.q2, name='wq2')
  ocfit.addVar(pwmol.q3, name='wq3')
  ocfit.registerCalculator(quatzero('fixq0'), argnames=[])
  ocfit.constrain(pwmol.q0, 'fixq0(wq1, wq2, wq3)')
  \<close>
  The model records the calls made on the recipe, by the name of the variable,
  parameter or calculator concerned, and the exception that ends the cell, if any. The
  number of scattering powers in the registry is a parameter.
\<close>

datatype recipe_call =
    ClearFitHooks
  | AddContribution string
  | AddVar string
  | NewVar string
  | Constrain string string
  | Restrain string
  | RegisterCalculator string

definition define_FitRecipe :: "nat \<Rightarrow> recipe_call list \<times> error option" where
  "define_FitRecipe nb =
     (let calls =
        [ClearFitHooks, AddContribution ''pcnt'',
         AddVar ''scale'', AddVar ''qdamp'',
         AddVar ''a'', AddVar ''b'', AddVar ''c'',
         NewVar ''beta'', Constrain ''beta'' ''radians(beta)'']
      in if 2 = nb then
           (calls @
            [AddVar ''bisoC'', Restrain ''bisoC'', AddVar ''bisoH'',
             AddVar ''binter'', Constrain ''H1.Biso'' ''binter'',
             AddVar ''wq1'', AddVar ''wq2'', AddVar ''wq3'',
             RegisterCalculator ''fixq0'', Constrain ''q0'' ''fixq0(wq1, wq2, wq3)''],
            None)
         else (calls, Some (AssertionError ''unexpected number of atom species'')))"

section \<open>Properties\<close>

subsection \<open>Helper facts\<close>

lemma and_then_simps:
  "and_then (Returns a) f = f a"
  "and_then (Raises e) f = Raises e"
  "and_then OutsideRange f = OutsideRange"
  by (simp_all add: and_then_def)




lemma float_pow_2:
  "float_pow q 2 =
     (if overflow_threshold \<le> q\<^sup>2 then Raises OverflowError else Returns (q\<^sup>2))"
  by (simp add: float_pow_def)

lemma overflow_threshold_gt_1: "1 < overflow_threshold"
  by (simp add: overflow_threshold_def)

lemma quatzero_call_cases:
  "quatzero_call q1 q2 q3 =
     (if overflow_threshold \<le> q1\<^sup>2 \<or> overflow_threshold \<le> q2\<^sup>2 \<or> overflow_threshold \<le> q3\<^sup>2
      then Raises OverflowError
      else Returns (Some (if q1\<^sup>2 + q2\<^sup>2 + q3\<^sup>2 < 1
                          then sqrt (1 - (q1\<^sup>2 + q2\<^sup>2 + q3\<^sup>2)) else 0)))"
  by (simp add: quatzero_call_def float_pow_2 and_then_simps np_sqrt_def Let_def)

lemma sum_squares_le_1:
  fixes q1 q2 q3 :: real
  assumes "q1\<^sup>2 + q2\<^sup>2 + q3\<^sup>2 \<le> 1"
  shows "\<not> (overflow_threshold \<le> q1\<^sup>2 \<or> overflow_threshold \<le> q2\<^sup>2
            \<or> overflow_threshold \<le> q3\<^sup>2)"
proof -
  have "q1\<^sup>2 \<le> 1" "q2\<^sup>2 \<le> 1" "q3\<^sup>2 \<le> 1"
    using assms zero_le_power2 [of q1] zero_le_power2 [of q2] zero_le_power2 [of q3]
    by linarith+
  with overflow_threshold_gt_1 show ?thesis
    by linarith
qed

lemma RectangularProfile_call_never_raises:
  "RectangularProfile_call x fwhm \<noteq> Raises e"
  by (auto simp: RectangularProfile_call_def fl_zero_def fl_def and_then_simps Let_def)







lemma getCrystalWithMolecule_loop_atoms:
  "getCrystalWithMolecule_loop f2o (0, 0, 0) (rev [0..<length as]) (map AtomScatterer as, mol)
     = Inr ([], mol\<lparr>atoms := atoms mol @ map (to_MolAtom f2o) (rev as)\<rparr>)"
proof (induction as arbitrary: mol rule: rev_induct)
  case Nil
  show ?case by simp
next
  case (snoc a as)
  have nth: "(map AtomScatterer as @ [AtomScatterer a]) ! length as = AtomScatterer a"
    by (simp add: nth_append)
  have rm: "RemoveScatterer (map AtomScatterer as @ [AtomScatterer a]) (length as)
              = map AtomScatterer as"
    by (simp add: RemoveScatterer_def)
  show ?case
    using nth rm snoc.IH
    by (simp add: AddAtom_def to_MolAtom_def split: prod.splits)
qed

subsection \<open>C8: \<open>quatzero.__call__\<close> returns unless a square overflows\<close>

text \<open>
  C8 says that \<open>quatzero.__call__\<close> is total for every real \<open>q1\<close>, \<open>q2\<close>, \<open>q3\<close>. It
  is not: the square of a float raises \<open>OverflowError\<close> when it leaves the range of
  the doubles.

  C8, amended. With \<open>ssq = q1\<^sup>2 + q2\<^sup>2 + q3\<^sup>2\<close>: \<open>quatzero.__call__\<close> raises
  \<open>OverflowError\<close> when the square of one of its arguments reaches
  \<open>2\<^sup>1\<^sup>0\<^sup>2\<^sup>4 - 2\<^sup>9\<^sup>7\<^sup>0\<close>, and for all other real \<open>q1\<close>, \<open>q2\<close>, \<open>q3\<close> it returns
  \<open>sqrt (1 - ssq)\<close> when \<open>ssq < 1\<close> and \<open>0\<close> otherwise. It never returns \<open>nan\<close>:
  the square root is never taken of a negative number. Whatever it returns lies in
  \<open>[0, 1]\<close>. Whenever \<open>ssq \<le> 1\<close> it does return, and the quaternion
  \<open>(q0, q1, q2, q3)\<close> with the returned \<open>q0\<close> has unit norm.
\<close>

theorem quatzero_call_total_safe:
  fixes q1 q2 q3 :: real
  defines "ssq \<equiv> q1\<^sup>2 + q2\<^sup>2 + q3\<^sup>2"
  shows "quatzero_call q1 q2 q3 =
           (if overflow_threshold \<le> q1\<^sup>2 \<or> overflow_threshold \<le> q2\<^sup>2
               \<or> overflow_threshold \<le> q3\<^sup>2
            then Raises OverflowError
            else Returns (Some (if ssq < 1 then sqrt (1 - ssq) else 0)))
       \<and> quatzero_call q1 q2 q3 \<noteq> Returns None
       \<and> (\<forall>q0. quatzero_call q1 q2 q3 = Returns (Some q0) \<longrightarrow>
              0 \<le> q0 \<and> q0 \<le> 1 \<and> (ssq \<le> 1 \<longrightarrow> q0\<^sup>2 + q1\<^sup>2 + q2\<^sup>2 + q3\<^sup>2 = 1))
       \<and> (ssq \<le> 1 \<longrightarrow> (\<exists>q0. quatzero_call q1 q2 q3 = Returns (Some q0)))"
proof -
  have nonneg: "0 \<le> ssq"
    by (simp add: ssq_def)
  let ?q0 = "if ssq < 1 then sqrt (1 - ssq) else 0"
  have cases: "quatzero_call q1 q2 q3 =
      (if overflow_threshold \<le> q1\<^sup>2 \<or> overflow_threshold \<le> q2\<^sup>2 \<or> overflow_threshold \<le> q3\<^sup>2
       then Raises OverflowError else Returns (Some ?q0))"
    unfolding ssq_def by (rule quatzero_call_cases)
  have no_nan: "quatzero_call q1 q2 q3 \<noteq> Returns None"
    by (simp add: cases)
  have lo: "0 \<le> ?q0"
    by simp
  have hi: "?q0 \<le> 1"
    using nonneg by simp
  have norm: "ssq \<le> 1 \<longrightarrow> ?q0\<^sup>2 + q1\<^sup>2 + q2\<^sup>2 + q3\<^sup>2 = 1"
  proof
    assume le: "ssq \<le> 1"
    show "?q0\<^sup>2 + q1\<^sup>2 + q2\<^sup>2 + q3\<^sup>2 = 1"
    proof (cases "ssq < 1")
      case True
      then have "(sqrt (1 - ssq))\<^sup>2 = 1 - ssq"
        by simp
      with True show ?thesis
        by (simp add: ssq_def)
    next
      case False
      with le have "ssq = 1"
        by simp
      with False show ?thesis
        by (simp add: ssq_def)
    qed
  qed
  have props: "\<forall>q0. quatzero_call q1 q2 q3 = Returns (Some q0) \<longrightarrow>
      0 \<le> q0 \<and> q0 \<le> 1 \<and> (ssq \<le> 1 \<longrightarrow> q0\<^sup>2 + q1\<^sup>2 + q2\<^sup>2 + q3\<^sup>2 = 1)"
  proof (intro allI impI)
    fix q0
    assume "quatzero_call q1 q2 q3 = Returns (Some q0)"
    with cases have "q0 = ?q0"
      by (simp split: if_splits)
    with lo hi norm
    show "0 \<le> q0 \<and> q0 \<le> 1 \<and> (ssq \<le> 1 \<longrightarrow> q0\<^sup>2 + q1\<^sup>2 + q2\<^sup>2 + q3\<^sup>2 = 1)"
      by simp
  qed
  have returns: "ssq \<le> 1 \<longrightarrow> (\<exists>q0. quatzero_call q1 q2 q3 = Returns (Some q0))"
  proof
    assume "ssq \<le> 1"
    then have "\<not> (overflow_threshold \<le> q1\<^sup>2 \<or> overflow_threshold \<le> q2\<^sup>2
        \<or> overflow_threshold \<le> q3\<^sup>2)"
      unfolding ssq_def by (rule sum_squares_le_1)
    with cases show "\<exists>q0. quatzero_call q1 q2 q3 = Returns (Some q0)"
      by simp
  qed
  from cases no_nan props returns show ?thesis
    by blast
qed

text \<open>The unit quaternion \<open>(1/2, 1/2, 1/2, 1/2)\<close>.\<close>

theorem quatzero_call_total_safe_witness:
  "quatzero_call (1/2) (1/2) (1/2) = Returns (Some (1/2))
   \<and> (1/2)\<^sup>2 + (1/2)\<^sup>2 + (1/2)\<^sup>2 + (1/2)\<^sup>2 = (1::real)"
proof -
  have le: "(1/2)\<^sup>2 + (1/2)\<^sup>2 + (1/2)\<^sup>2 \<le> (1::real)"
    by (simp add: power2_eq_square)
  from quatzero_call_total_safe [of "1/2" "1/2" "1/2"] le
  obtain q0 :: real where q0: "quatzero_call (1/2) (1/2) (1/2) = Returns (Some q0)"
    by blast
  with quatzero_call_total_safe [of "1/2" "1/2" "1/2"] le
  have norm: "q0\<^sup>2 + (1/2)\<^sup>2 + (1/2)\<^sup>2 + (1/2)\<^sup>2 = 1" and pos: "0 \<le> q0"
    by blast+
  from norm have "q0\<^sup>2 = (1/2)\<^sup>2"
    by (simp add: power2_eq_square)
  with pos have "q0 = 1/2"
    by (simp add: power2_eq_iff_nonneg)
  with q0 show ?thesis
    by (simp add: power2_eq_square)
qed

text \<open>
  Against C8 as stated: at \<open>q1 = 2\<^sup>6\<^sup>0\<^sup>0\<close>, \<open>q2 = q3 = 0\<close> the first square is
  \<open>2\<^sup>1\<^sup>2\<^sup>0\<^sup>0\<close>, and the call raises \<open>OverflowError\<close> instead of returning \<open>0\<close>.
\<close>

theorem quatzero_call_overflow:
  "quatzero_call (2 ^ 600) 0 0 = Raises OverflowError"
  by (simp add: quatzero_call_cases overflow_threshold_def)

subsection \<open>C10: \<open>RectangularProfile\<close> agrees with its bounds and has unit area\<close>

text \<open>
  C10 says, for every \<open>fwhm > 0\<close>, that the profile is \<open>1/fwhm\<close> for
  \<open>-fwhm/2 < x < fwhm/2\<close>. For the smallest positive double the half-width underflows
  to \<open>0.0\<close>, and the profile is zero everywhere.

  C10, amended. For every \<open>fwhm\<close> with \<open>2\<^sup>-\<^sup>1\<^sup>0\<^sup>2\<^sup>1 \<le> fwhm \<le> 2\<^sup>1\<^sup>0\<^sup>2\<^sup>2\<close>, so that the
  half-width and the height are normal doubles, and for every \<open>x\<close>:
  \<open>xboundlo(fwhm)\<close> is \<open>-fwhm/2\<close> and \<open>xboundhi(fwhm)\<close> is \<open>fwhm/2\<close>;
  \<open>__call__(x, fwhm)\<close> returns \<open>1/fwhm\<close> when \<open>xboundlo(fwhm) < x < xboundhi(fwhm)\<close>
  and \<open>0\<close> otherwise; so the profile is nonzero exactly on the open interval between
  the two bounds, and its height \<open>1/fwhm\<close> times the width of its support, \<open>fwhm\<close>,
  is 1.
\<close>

theorem RectangularProfile_bounds_unit_area:
  assumes "1 / 2 ^ 1021 \<le> fwhm" and "fwhm \<le> 2 ^ 1022"
  shows "xboundlo fwhm = Returns (- fwhm / 2) \<and> xboundhi fwhm = Returns (fwhm / 2)
       \<and> RectangularProfile_call x fwhm =
           Returns (if - fwhm / 2 < x \<and> x < fwhm / 2 then 1 / fwhm else 0)
       \<and> (RectangularProfile_call x fwhm \<noteq> Returns 0) = (- fwhm / 2 < x \<and> x < fwhm / 2)
       \<and> (1 / fwhm) * (fwhm / 2 - (- fwhm / 2)) = 1"
proof -
  have pos: "0 < fwhm"
    using assms(1) by (rule less_le_trans [rotated]) simp
  have half: "in_range (fwhm / 2)" "in_range (- fwhm / 2)"
    using assms pos
    by (simp_all add: in_range_def min_normal_def overflow_threshold_def field_simps)
  have not_tiny: "\<not> \<bar>fwhm / 2\<bar> \<le> 1 / 2 ^ 1075"
    using assms(1) pos by (simp add: field_simps)
  have halves: "fl_zero (fwhm / 2) = Returns (fwhm / 2)"
    "fl_zero (- fwhm / 2) = Returns (- fwhm / 2)"
    using half not_tiny by (simp_all add: fl_zero_def fl_def)
  have "1 / fwhm \<le> 2 ^ 1021"
    using assms(1) pos by (simp add: field_simps)
  moreover have "1 / 2 ^ 1022 \<le> 1 / fwhm"
    using assms(2) pos by (simp add: field_simps)
  ultimately have recip: "fl (1 / fwhm) = Returns (1 / fwhm)"
    using pos by (simp add: fl_def in_range_def min_normal_def overflow_threshold_def)
  have lo: "xboundlo fwhm = Returns (- fwhm / 2)" and hi: "xboundhi fwhm = Returns (fwhm / 2)"
    using halves by (simp_all add: xboundlo_def xboundhi_def)
  have call: "RectangularProfile_call x fwhm =
      Returns (if - fwhm / 2 < x \<and> x < fwhm / 2 then 1 / fwhm else 0)"
    using halves recip pos by (simp add: RectangularProfile_call_def and_then_simps)
  have nonzero: "(RectangularProfile_call x fwhm \<noteq> Returns 0)
      = (- fwhm / 2 < x \<and> x < fwhm / 2)"
    using pos by (simp add: call)
  have area: "(1 / fwhm) * (fwhm / 2 - (- fwhm / 2)) = 1"
    using pos by simp
  from lo hi call nonzero area show ?thesis
    by blast
qed

text \<open>The profile of width 2: \<open>1/2\<close> at \<open>x = 1/2\<close>, zero at the bound \<open>x = 1\<close>.\<close>

theorem RectangularProfile_bounds_unit_area_witness:
  "1 / 2 ^ 1021 \<le> (2::real) \<and> (2::real) \<le> 2 ^ 1022
   \<and> xboundlo 2 = Returns (- 1) \<and> xboundhi 2 = Returns 1
   \<and> RectangularProfile_call (1/2) 2 = Returns (1/2)
   \<and> RectangularProfile_call 1 2 = Returns 0"
proof -
  have lower: "1 / 2 ^ 1021 \<le> (2::real)"
    by simp
  have upper: "(2::real) \<le> 2 ^ 1022"
    by simp
  from RectangularProfile_bounds_unit_area [OF lower upper, of "1/2"]
  have a: "xboundlo 2 = Returns (- 1)" "xboundhi 2 = Returns 1"
    "RectangularProfile_call (1/2) 2 = Returns (1/2)"
    by simp_all
  from RectangularProfile_bounds_unit_area [OF lower upper, of 1]
  have b: "RectangularProfile_call 1 2 = Returns 0"
    by simp
  from lower upper a b show ?thesis
    by blast
qed

text \<open>
  Against C10 as stated: \<open>fwhm = 2\<^sup>-\<^sup>1\<^sup>0\<^sup>7\<^sup>4\<close>, the smallest positive double, is
  positive and \<open>x = 0\<close> lies strictly between \<open>-fwhm/2\<close> and \<open>fwhm/2\<close>, but the
  half-widths computed by the code are \<open>0.0\<close>: the call returns \<open>0\<close>, not
  \<open>1/fwhm\<close>, and both bounds are \<open>0\<close>, so that the support is empty.
\<close>

theorem RectangularProfile_underflow:
  "(0::real) < 1 / 2 ^ 1074
   \<and> - (1 / 2 ^ 1074) / 2 < (0::real) \<and> (0::real) < (1 / 2 ^ 1074) / 2
   \<and> RectangularProfile_call 0 (1 / 2 ^ 1074) = Returns 0
   \<and> xboundlo (1 / 2 ^ 1074) = Returns 0
   \<and> xboundhi (1 / 2 ^ 1074) = Returns 0"
  by (simp add: RectangularProfile_call_def xboundlo_def xboundhi_def fl_zero_def
      and_then_simps)

subsection \<open>C1: a class of the repository stores model data and computes from it\<close>




subsection \<open>C3: the pair contribution is computed and accumulated in the repository\<close>




subsection \<open>C2: code cells define functions that compute their results\<close>

text \<open>
  C2 says that every code cell is a sequence of object construction, attribute
  assignment, variable registration or plotting, and that no cell defines a function
  whose result depends on a computation performed in the repository. The cells that
  define \<open>RectangularProfile\<close> and \<open>getCrystalWithMolecule\<close> do, by design.

  C2, amended. Code cells of the notebooks define functions whose results are computed
  in the repository, among them \<open>getCrystalWithMolecule\<close>: for a CIF file whose
  crystal consists of atoms only, it returns a crystal with exactly one scatterer, a
  molecule named \<open>mol\<close> at the fractional position \<open>(0, 0, 0)\<close> that holds the
  atoms of the file in reverse order, each at the orthonormal coordinates
  (\<open>FractionalToOrthonormalCoords\<close>) of its fractional position, with its scattering
  power and its name.
\<close>

theorem getCrystalWithMolecule_groups_atoms:
  assumes "CreateCrystalFromCIF ciffilename = Inr (map AtomScatterer as)"
  shows "getCrystalWithMolecule CreateCrystalFromCIF f2o ciffilename =
           Inr [MoleculeScatterer
                  \<lparr>X = 0, Y = 0, Z = 0, Name = ''mol'',
                   atoms = map (to_MolAtom f2o) (rev as)\<rparr>]"
  using assms getCrystalWithMolecule_loop_atoms [of f2o as]
  by (simp add: getCrystalWithMolecule_def myLoadCrystal_def Let_def)

text \<open>
  A file with a carbon and a hydrogen atom, in a cell with orthogonal axes of lengths
  8, 6 and 8: the molecule holds the hydrogen first.
\<close>

theorem getCrystalWithMolecule_groups_atoms_witness:
  "getCrystalWithMolecule
     (\<lambda>f. Inr [AtomScatterer \<lparr>X = 1/4, Y = 0, Z = 0, Name = ''C1'', ScatteringPower = ''C''\<rparr>,
                AtomScatterer \<lparr>X = 0, Y = 1/2, Z = 0, Name = ''H1'', ScatteringPower = ''H''\<rparr>])
     (\<lambda>x y z'. (8 * x, 6 * y, 8 * z')) ''naphthalene.cif''
   = Inr [MoleculeScatterer \<lparr>X = 0, Y = 0, Z = 0, Name = ''mol'', atoms =
            [\<lparr>ma_x = 0, ma_y = 3, ma_z = 0, ma_pow = ''H'', ma_name = ''H1''\<rparr>,
             \<lparr>ma_x = 2, ma_y = 0, ma_z = 0, ma_pow = ''C'', ma_name = ''C1''\<rparr>]\<rparr>]"
proof -
  let ?C1 = "\<lparr>X = 1/4, Y = 0, Z = 0, Name = ''C1'', ScatteringPower = ''C''\<rparr>"
  let ?H1 = "\<lparr>X = 0, Y = 1/2, Z = 0, Name = ''H1'', ScatteringPower = ''H''\<rparr>"
  let ?load = "\<lambda>f::string. (Inr [AtomScatterer ?C1, AtomScatterer ?H1] :: error + Crystal)"
  have loaded: "?load ''naphthalene.cif'' = Inr (map AtomScatterer [?C1, ?H1])"
    by simp
  show ?thesis
    using getCrystalWithMolecule_groups_atoms
            [of ?load "''naphthalene.cif''" "[?C1, ?H1]" "\<lambda>x y z'. (8 * x, 6 * y, 8 * z')",
             OF loaded]
    by (simp add: to_MolAtom_def)
qed

text \<open>
  Against C2 as stated: \<open>RectangularProfile.__call__\<close> calls nothing of the toolkit,
  and its result is the outcome of its own comparison and division, \<open>1/2\<close> inside the
  profile of width 2 and \<open>0\<close> outside; and \<open>getCrystalWithMolecule\<close> returns not
  the crystal that was loaded, an atom at \<open>(1/2, 0, 0)\<close>, but a crystal that holds a
  molecule it has built.
\<close>

theorem code_cells_define_computations:
  "RectangularProfile_call 0 2 = Returns (1/2)
   \<and> RectangularProfile_call 3 2 = Returns 0
   \<and> getCrystalWithMolecule
        (\<lambda>f. Inr [AtomScatterer \<lparr>X = 1/2, Y = 0, Z = 0, Name = ''C1'', ScatteringPower = ''C''\<rparr>])
        (\<lambda>x y z'. (8 * x, 6 * y, 8 * z')) ''naphthalene.cif''
      = Inr [MoleculeScatterer \<lparr>X = 0, Y = 0, Z = 0, Name = ''mol'', atoms =
               [\<lparr>ma_x = 4, ma_y = 0, ma_z = 0, ma_pow = ''C'', ma_name = ''C1''\<rparr>]\<rparr>]"
proof -
  have inside: "RectangularProfile_call 0 2 = Returns (1/2)"
    by (simp add: RectangularProfile_call_def and_then_simps fl_zero_def fl_def in_range_def
        min_normal_def overflow_threshold_def)
  have outside: "RectangularProfile_call 3 2 = Returns 0"
    by (simp add: RectangularProfile_call_def and_then_simps fl_zero_def fl_def in_range_def
        min_normal_def overflow_threshold_def)
  have regrouped: "getCrystalWithMolecule
        (\<lambda>f. Inr [AtomScatterer \<lparr>X = 1/2, Y = 0, Z = 0, Name = ''C1'', ScatteringPower = ''C''\<rparr>])
        (\<lambda>x y z'. (8 * x, 6 * y, 8 * z')) ''naphthalene.cif''
      = Inr [MoleculeScatterer \<lparr>X = 0, Y = 0, Z = 0, Name = ''mol'', atoms =
               [\<lparr>ma_x = 4, ma_y = 0, ma_z = 0, ma_pow = ''C'', ma_name = ''C1''\<rparr>]\<rparr>]"
    by (simp add: getCrystalWithMolecule_def myLoadCrystal_def Let_def RemoveScatterer_def
        AddAtom_def)
  from inside outside regrouped show ?thesis
    by blast
qed

subsection \<open>C4: the zeroth quaternion component is computed in the repository\<close>

text \<open>
  C4 says that no quaternion arithmetic, normalization or computation of a component,
  is carried out by code of the repository. \<open>quatzero\<close> is such code, by design: the
  recipe constrains \<open>q0\<close> to \<open>fixq0(wq1, wq2, wq3)\<close>, which is \<open>quatzero\<close>.

  C4, amended. The normalization of the rotation quaternion is computed in the
  repository, by \<open>quatzero\<close> (registered in the recipe as \<open>fixq0\<close> to constrain
  \<open>q0\<close>): for all real \<open>q1\<close>, \<open>q2\<close>, \<open>q3\<close> and every \<open>q0 \<ge> 0\<close>, the quaternion
  \<open>(q0, q1, q2, q3)\<close> has unit norm exactly when \<open>q1\<^sup>2 + q2\<^sup>2 + q3\<^sup>2 \<le> 1\<close> and
  \<open>q0\<close> is the value that \<open>quatzero.__call__(q1, q2, q3)\<close> returns.
\<close>

theorem quatzero_call_normalizes:
  fixes q0 q1 q2 q3 :: real
  assumes "0 \<le> q0"
  shows "(q0\<^sup>2 + q1\<^sup>2 + q2\<^sup>2 + q3\<^sup>2 = 1)
           = (q1\<^sup>2 + q2\<^sup>2 + q3\<^sup>2 \<le> 1 \<and> quatzero_call q1 q2 q3 = Returns (Some q0))"
proof -
  let ?ssq = "q1\<^sup>2 + q2\<^sup>2 + q3\<^sup>2"
  have returns:
    "quatzero_call q1 q2 q3 = Returns (Some (if ?ssq < 1 then sqrt (1 - ?ssq) else 0))"
    if "?ssq \<le> 1"
    using sum_squares_le_1 [OF that] by (simp add: quatzero_call_cases)
  show ?thesis
  proof
    assume "q0\<^sup>2 + q1\<^sup>2 + q2\<^sup>2 + q3\<^sup>2 = 1"
    then have sq: "q0\<^sup>2 = 1 - ?ssq"
      by simp
    have "0 \<le> q0\<^sup>2"
      by simp
    with sq have le: "?ssq \<le> 1"
      by simp
    from sq assms have root: "q0 = sqrt (1 - ?ssq)"
      by (metis real_sqrt_abs abs_of_nonneg)
    show "?ssq \<le> 1 \<and> quatzero_call q1 q2 q3 = Returns (Some q0)"
    proof (cases "?ssq < 1")
      case True
      with root le returns [OF le] show ?thesis
        by simp
    next
      case False
      with le have "?ssq = 1"
        by simp
      with root have "q0 = 0"
        by simp
      with False le returns [OF le] show ?thesis
        by simp
    qed
  next
    assume "?ssq \<le> 1 \<and> quatzero_call q1 q2 q3 = Returns (Some q0)"
    then have le: "?ssq \<le> 1" and ret: "quatzero_call q1 q2 q3 = Returns (Some q0)"
      by simp_all
    show "q0\<^sup>2 + q1\<^sup>2 + q2\<^sup>2 + q3\<^sup>2 = 1"
    proof (cases "?ssq < 1")
      case True
      with returns [OF le] ret have "q0 = sqrt (1 - ?ssq)"
        by simp
      with True show ?thesis
        by simp
    next
      case False
      with returns [OF le] ret have "q0 = 0"
        by simp
      moreover from False le have "?ssq = 1"
        by simp
      ultimately show ?thesis
        by simp
    qed
  qed
qed

text \<open>The unit quaternion \<open>(3/5, 0, 0, 4/5)\<close>.\<close>

theorem quatzero_call_normalizes_witness:
  "(0::real) \<le> 3/5 \<and> quatzero_call 0 0 (4/5) = Returns (Some (3/5))"
proof -
  have pos: "(0::real) \<le> 3/5"
    by simp
  have unit: "(3/5)\<^sup>2 + 0\<^sup>2 + 0\<^sup>2 + (4/5)\<^sup>2 = (1::real)"
    by (simp add: power2_eq_square)
  from quatzero_call_normalizes [OF pos, of 0 0 "4/5"] unit
  have "quatzero_call 0 0 (4/5) = Returns (Some (3/5))"
    by blast
  with pos show ?thesis
    by blast
qed

text \<open>
  Against C4 as stated: for \<open>q1 = 3/5\<close>, \<open>q2 = q3 = 0\<close> the code of the repository
  computes the component \<open>q0 = sqrt (1 - 9/25) = 4/5\<close>.
\<close>

theorem quatzero_call_computes_component:
  "quatzero_call (3/5) 0 0 = Returns (Some (4/5))"
proof -
  have "sqrt (16/25) = (4/5::real)"
    by (rule real_sqrt_unique) (simp_all add: power2_eq_square)
  moreover have "\<not> overflow_threshold \<le> (3/5)\<^sup>2" and "\<not> overflow_threshold \<le> 0"
    using overflow_threshold_gt_1 by (simp_all add: power2_eq_square)
  ultimately show ?thesis
    by (simp add: quatzero_call_cases power2_eq_square)
qed

subsection \<open>C5: an assertion and a guarded branch\<close>

text \<open>
  C5 says that the code of the repository has no input validation, guarded branch or
  assertion of its own, and that every operation goes on unconditionally. The cell
  that defines the fit recipe asserts the number of scattering powers, and
  \<open>quatzero.__call__\<close> guards its square root; both are deliberate.

  C5, amended. The code of the repository does contain an assertion and a guarded
  branch of its own. The cell that defines the fit recipe ends with
  \<open>AssertionError("unexpected number of atom species")\<close> unless the crystal has
  exactly 2 scattering powers: the 9 calls before the assertion are made in either
  case, the 10 calls after it (among them the registration of \<open>bisoC\<close> and the
  constraint on \<open>q0\<close>) only when the assertion holds. And \<open>quatzero.__call__\<close>,
  unless one of its squares overflows, which raises \<open>OverflowError\<close> before the guard
  is reached, takes the square root only under the guard \<open>ssq < 1\<close> and returns
  \<open>0.0\<close> otherwise, where the unguarded root would be undefined exactly for
  \<open>ssq > 1\<close>.
\<close>

theorem define_FitRecipe_assertion:
  fixes q1 q2 q3 :: real
  shows "snd (define_FitRecipe nb) =
           (if nb = 2 then None else Some (AssertionError ''unexpected number of atom species''))
       \<and> take 9 (fst (define_FitRecipe nb)) = take 9 (fst (define_FitRecipe 2))
       \<and> length (fst (define_FitRecipe nb)) = (if nb = 2 then 19 else 9)
       \<and> (AddVar ''bisoC'' \<in> set (fst (define_FitRecipe nb))) = (nb = 2)
       \<and> (Constrain ''q0'' ''fixq0(wq1, wq2, wq3)'' \<in> set (fst (define_FitRecipe nb))) = (nb = 2)
       \<and> quatzero_call q1 q2 q3 =
           (if overflow_threshold \<le> q1\<^sup>2 \<or> overflow_threshold \<le> q2\<^sup>2
               \<or> overflow_threshold \<le> q3\<^sup>2
            then Raises OverflowError
            else Returns (if q1\<^sup>2 + q2\<^sup>2 + q3\<^sup>2 < 1
                          then np_sqrt (1 - (q1\<^sup>2 + q2\<^sup>2 + q3\<^sup>2)) else Some 0))
       \<and> (np_sqrt (1 - (q1\<^sup>2 + q2\<^sup>2 + q3\<^sup>2)) = None) = (1 < q1\<^sup>2 + q2\<^sup>2 + q3\<^sup>2)"
proof -
  have err: "snd (define_FitRecipe nb) =
      (if nb = 2 then None else Some (AssertionError ''unexpected number of atom species''))"
    by (auto simp: define_FitRecipe_def Let_def)
  have before: "take 9 (fst (define_FitRecipe nb)) = take 9 (fst (define_FitRecipe 2))"
    by (simp add: define_FitRecipe_def Let_def)
  have len: "length (fst (define_FitRecipe nb)) = (if nb = 2 then 19 else 9)"
    by (auto simp: define_FitRecipe_def Let_def)
  have biso: "(AddVar ''bisoC'' \<in> set (fst (define_FitRecipe nb))) = (nb = 2)"
    by (simp add: define_FitRecipe_def Let_def)
  have q0: "(Constrain ''q0'' ''fixq0(wq1, wq2, wq3)'' \<in> set (fst (define_FitRecipe nb)))
      = (nb = 2)"
    by (simp add: define_FitRecipe_def Let_def)
  have guard: "quatzero_call q1 q2 q3 =
      (if overflow_threshold \<le> q1\<^sup>2 \<or> overflow_threshold \<le> q2\<^sup>2 \<or> overflow_threshold \<le> q3\<^sup>2
       then Raises OverflowError
       else Returns (if q1\<^sup>2 + q2\<^sup>2 + q3\<^sup>2 < 1
                     then np_sqrt (1 - (q1\<^sup>2 + q2\<^sup>2 + q3\<^sup>2)) else Some 0))"
    by (simp add: quatzero_call_def float_pow_2 and_then_simps Let_def)
  have undefined_root:
    "(np_sqrt (1 - (q1\<^sup>2 + q2\<^sup>2 + q3\<^sup>2)) = None) = (1 < q1\<^sup>2 + q2\<^sup>2 + q3\<^sup>2)"
    by (simp add: np_sqrt_def)
  from err before len biso q0 guard undefined_root show ?thesis
    by blast
qed

text \<open>
  Against C5 as stated: with 3 scattering powers in the registry the cell stops at
  the assertion, after the constraint on \<open>beta\<close>.
\<close>

theorem define_FitRecipe_assertion_fails:
  "define_FitRecipe 3 =
     ([ClearFitHooks, AddContribution ''pcnt'', AddVar ''scale'', AddVar ''qdamp'',
       AddVar ''a'', AddVar ''b'', AddVar ''c'', NewVar ''beta'',
       Constrain ''beta'' ''radians(beta)''],
      Some (AssertionError ''unexpected number of atom species''))"
  by (simp add: define_FitRecipe_def Let_def)

end
